theory Spec2Isabelle
  imports Main
begin

section \<open>JavaScript data values\<close>

text \<open>
  The values that travel through the access layer: what \<^verbatim>\<open>response.json()\<close> can
  deliver, what a caller can pass as \<^verbatim>\<open>limit\<close>, and the object literals of the
  fallback branches. An object keeps its fields in insertion order, so it is an
  association list: \<open>JObj fs\<close> is an ordinary object with prototype
  \<^verbatim>\<open>Object.prototype\<close> and the own data properties \<open>fs\<close>, \<open>JArr xs\<close> an array
  with the elements \<open>xs\<close>. A finite number is carried as its shortest decimal
  \<open>m * 10 ^ e\<close>, the digits that \<^verbatim>\<open>Number::toString\<close> prints. A symbol is
  carried with its description.
\<close>

datatype jsnum = Finite int int | NaN | PosInfinity | NegInfinity

datatype jsval =
    JUndefined
  | JNull
  | JBool bool
  | JNum jsnum
  | JStr string
  | JSymbol string
  | JArr "jsval list"
  | JObj "(string \<times> jsval) list"

text \<open>
  What a \<^verbatim>\<open>throw\<close> carries. The platform's \<^verbatim>\<open>fetch\<close> and \<^verbatim>\<open>Response.json\<close>
  reject with Error objects (TypeError, SyntaxError, DOMException), and a failing
  conversion throws a TypeError; \<^verbatim>\<open>error.message\<close> reads the string they carry.
\<close>

record fault =
  name :: string
  message :: string

subsection \<open>String conversion, as a template literal applies it\<close>

definition digit :: "nat \<Rightarrow> char" where
  "digit n = ''0123456789'' ! (n mod 10)"

fun decimal :: "nat \<Rightarrow> string" where
  "decimal n = (if n < 10 then [digit n] else decimal (n div 10) @ [digit n])"

declare decimal.simps [simp del]

text \<open>The shortest digit string has no trailing zero: each one moves into the exponent.\<close>

fun shortest :: "nat \<Rightarrow> int \<Rightarrow> nat \<times> int" where
  "shortest s e = (if s \<noteq> 0 \<and> s mod 10 = 0 then shortest (s div 10) (e + 1) else (s, e))"

declare shortest.simps [simp del]

text \<open>
  \<^verbatim>\<open>Number::toString\<close> of ECMAScript for a positive value \<open>s * 10 ^ e\<close>, radix ten:
  with \<open>k\<close> digits and the decimal point after digit \<open>n\<close>, plain notation for
  \<open>-6 < n \<le> 21\<close> and exponent notation otherwise.
\<close>

definition positive_toString :: "nat \<Rightarrow> int \<Rightarrow> string" where
  "positive_toString a e0 =
     (let (s, e) = shortest a e0;
          ds = decimal s;
          k = int (length ds);
          n = k + e
      in if k \<le> n \<and> n \<le> 21 then ds @ replicate (nat (n - k)) CHR ''0''
         else if 0 < n \<and> n \<le> 21 then take (nat n) ds @ ''.'' @ drop (nat n) ds
         else if - 6 < n \<and> n \<le> 0 then ''0.'' @ replicate (nat (- n)) CHR ''0'' @ ds
         else let x = n - 1;
                  xs = (if x < 0 then ''-'' else ''+'') @ decimal (nat \<bar>x\<bar>)
              in if k = 1 then ds @ ''e'' @ xs
                 else take 1 ds @ ''.'' @ drop 1 ds @ ''e'' @ xs)"

fun Number_toString :: "jsnum \<Rightarrow> string" where
  "Number_toString NaN = ''NaN''"
| "Number_toString PosInfinity = ''Infinity''"
| "Number_toString NegInfinity = ''-Infinity''"
| "Number_toString (Finite m e) =
     (if m = 0 then ''0''
      else if m < 0 then ''-'' @ positive_toString (nat (- m)) e
      else positive_toString (nat m) e)"

fun join :: "string \<Rightarrow> string list \<Rightarrow> string" where
  "join sep [] = []"
| "join sep [x] = x"
| "join sep (x # y # ys) = x @ sep @ join sep (y # ys)"

text \<open>
  \<^verbatim>\<open>${v}\<close> applies ToString, which can throw; \<open>Inl\<close> is the TypeError, with the
  wording of V8.
  \<^item> A symbol has no string form.
  \<^item> An object is asked for its \<^verbatim>\<open>toString\<close>. Without an own field of that name it
    finds the one of \<^verbatim>\<open>Object.prototype\<close>, which prints \<^verbatim>\<open>[object Object]\<close>. An own
    field holds a data value, which cannot be called; the conversion then turns to
    \<^verbatim>\<open>valueOf\<close>, which is either an own data value too or the inherited one that
    returns the object itself, and throws.
  \<^item> An array joins its elements with commas from left to right, the elements
    \<^verbatim>\<open>undefined\<close> and \<^verbatim>\<open>null\<close> as empty strings, and throws where the first of
    its elements does.
\<close>

definition symbol_to_string_error :: fault where
  "symbol_to_string_error =
     \<lparr>name = ''TypeError'', message = ''Cannot convert a Symbol value to a string''\<rparr>"

definition object_to_primitive_error :: fault where
  "object_to_primitive_error =
     \<lparr>name = ''TypeError'', message = ''Cannot convert object to primitive value''\<rparr>"

text \<open>The results of a list in order, up to the first that is a throw.\<close>

fun collect :: "(fault + 'a) list \<Rightarrow> fault + 'a list" where
  "collect [] = Inr []"
| "collect (Inl e # rs) = Inl e"
| "collect (Inr x # rs) = (case collect rs of Inl e \<Rightarrow> Inl e | Inr xs \<Rightarrow> Inr (x # xs))"

fun ToString :: "jsval \<Rightarrow> fault + string" where
  "ToString JUndefined = Inr ''undefined''"
| "ToString JNull = Inr ''null''"
| "ToString (JBool b) = Inr (if b then ''true'' else ''false'')"
| "ToString (JNum n) = Inr (Number_toString n)"
| "ToString (JStr s) = Inr s"
| "ToString (JSymbol d) = Inl symbol_to_string_error"
| "ToString (JArr xs) =
     (case collect (map (\<lambda>x. if x = JUndefined \<or> x = JNull then Inr [] else ToString x) xs) of
        Inl e \<Rightarrow> Inl e
      | Inr texts \<Rightarrow> Inr (join '','' texts))"
| "ToString (JObj fs) =
     (if ''toString'' \<in> fst ` set fs then Inl object_to_primitive_error
      else Inr ''[object Object]'')"

section \<open>Promises, the network and the console\<close>

text \<open>How a promise ends: fulfilled, rejected, or never settled.\<close>

datatype 'a outcome = Fulfilled 'a | Rejected fault | Pending

text \<open>A request as it is handed to \<^verbatim>\<open>fetch\<close>: the URL as the caller wrote it.\<close>

record request =
  req_url :: string
  req_method :: string
  req_headers :: "(string \<times> string) list"
  req_body :: "string option"

text \<open>The second argument of \<^verbatim>\<open>fetch\<close>; a field left out of the literal is \<open>None\<close>.\<close>

record fetch_init =
  init_method :: "string option"
  init_headers :: "(string \<times> string) list option"
  init_body :: "string option"

text \<open>
  A response has its HTTP status and a body; \<open>resp_json\<close> is how
  \<^verbatim>\<open>response.json()\<close> ends on that body.
\<close>

record response =
  resp_status :: nat
  resp_json :: "jsval outcome"

definition ok :: "response \<Rightarrow> bool" where
  "ok r \<longleftrightarrow> 200 \<le> resp_status r \<and> resp_status r \<le> 299"

text \<open>
  What lies outside the access layer: the requests handed to the network so far and the
  lines written to the console, both oldest first.
\<close>

record world =
  requests :: "request list"
  console :: "(string \<times> fault) list"

text \<open>The remote side answers a request, knowing the requests that came before it.\<close>

type_synonym transport = "request list \<Rightarrow> request \<Rightarrow> response outcome"

type_synonym 'a action = "world \<Rightarrow> 'a outcome \<times> world"

definition new_request :: "string \<Rightarrow> fetch_init option \<Rightarrow> request" where
  "new_request u init =
     (case init of
        None \<Rightarrow> \<lparr>req_url = u, req_method = ''GET'', req_headers = [], req_body = None\<rparr>
      | Some i \<Rightarrow>
          \<lparr>req_url = u,
           req_method = (case init_method i of None \<Rightarrow> ''GET'' | Some m \<Rightarrow> m),
           req_headers = (case init_headers i of None \<Rightarrow> [] | Some h \<Rightarrow> h),
           req_body = init_body i\<rparr>)"

definition fetch :: "transport \<Rightarrow> string \<Rightarrow> fetch_init option \<Rightarrow> response action" where
  "fetch t u init w =
     (let rq = new_request u init
      in (t (requests w) rq, w\<lparr>requests := requests w @ [rq]\<rparr>))"

definition json :: "response \<Rightarrow> jsval action" where
  "json r w = (resp_json r, w)"

definition console_error :: "string \<Rightarrow> fault \<Rightarrow> unit action" where
  "console_error label e w = (Fulfilled (), w\<lparr>console := console w @ [(label, e)]\<rparr>)"

subsection \<open>Control flow of an async function\<close>

definition return :: "'a \<Rightarrow> 'a action" where
  "return v w = (Fulfilled v, w)"

text \<open>\<^verbatim>\<open>x = await m; f x\<close>: a rejection or a promise that never settles ends the block.\<close>

definition await :: "'a action \<Rightarrow> ('a \<Rightarrow> 'b action) \<Rightarrow> 'b action" where
  "await m f w =
     (case m w of
        (Fulfilled x, w') \<Rightarrow> f x w'
      | (Rejected e, w') \<Rightarrow> (Rejected e, w')
      | (Pending, w') \<Rightarrow> (Pending, w'))"

text \<open>An expression is evaluated: it throws, or the block goes on with its value.\<close>

definition evaluate :: "fault + 'a \<Rightarrow> ('a \<Rightarrow> 'b action) \<Rightarrow> 'b action" where
  "evaluate x f w = (case x of Inl e \<Rightarrow> (Rejected e, w) | Inr v \<Rightarrow> f v w)"

text \<open>\<^verbatim>\<open>try { m } catch (error) { h error }\<close>\<close>

definition try_catch :: "'a action \<Rightarrow> (fault \<Rightarrow> 'a action) \<Rightarrow> 'a action" where
  "try_catch m h w =
     (case m w of
        (Rejected e, w') \<Rightarrow> h e w'
      | (Fulfilled x, w') \<Rightarrow> (Fulfilled x, w')
      | (Pending, w') \<Rightarrow> (Pending, w'))"

text \<open>
  A call passes a list of arguments; a parameter without an argument is
  \<^verbatim>\<open>undefined\<close>, and a default initialiser replaces \<^verbatim>\<open>undefined\<close>.
\<close>

definition parameter :: "jsval list \<Rightarrow> nat \<Rightarrow> jsval" where
  "parameter args i = (if i < length args then args ! i else JUndefined)"

definition default_to :: "jsval \<Rightarrow> jsval \<Rightarrow> jsval" where
  "default_to v d = (if v = JUndefined then d else v)"

section \<open>The access layer: \<^verbatim>\<open>SAPApiService\<close>\<close>

definition API_BASE :: string where
  "API_BASE = ''https://app-sap-integration-api-h7hwc9fwaugghnce.germanywestcentral-01.azurewebsites.net''"

definition getHealth :: "transport \<Rightarrow> jsval list \<Rightarrow> jsval action" where
  "getHealth t args =
     try_catch
       (await (fetch t (API_BASE @ ''/api/health'') None) (\<lambda>response.
        await (json response) return))
       (\<lambda>error.
        await (console_error ''Health check failed:'' error) (\<lambda>_.
        return (JObj [(''status'', JStr ''error''), (''message'', JStr (message error))])))"

definition getTransactions :: "transport \<Rightarrow> jsval list \<Rightarrow> jsval action" where
  "getTransactions t args =
     (let limit = default_to (parameter args 0) (JNum (Finite 100 0))
      in try_catch
           (evaluate (ToString limit) (\<lambda>text.
            await (fetch t (API_BASE @ ''/api/transactions-raw?limit='' @ text) None)
              (\<lambda>response.
            await (json response) return)))
           (\<lambda>error.
            await (console_error ''Get transactions failed:'' error) (\<lambda>_.
            return (JObj [(''transactions'', JArr []), (''error'', JStr (message error))]))))"

definition getDatabaseStatus :: "transport \<Rightarrow> jsval list \<Rightarrow> jsval action" where
  "getDatabaseStatus t args =
     try_catch
       (await (fetch t (API_BASE @ ''/api/database-test'') None) (\<lambda>response.
        await (json response) return))
       (\<lambda>error.
        await (console_error ''Database status failed:'' error) (\<lambda>_.
        return (JObj [(''connection_test'', JBool False), (''error'', JStr (message error))])))"

definition triggerProcessing :: "transport \<Rightarrow> jsval list \<Rightarrow> jsval action" where
  "triggerProcessing t args =
     try_catch
       (await (fetch t (API_BASE @ ''/api/process'')
                 (Some \<lparr>init_method = Some ''POST'',
                        init_headers = Some [(''Content-Type'', ''application/json'')],
                        init_body = None\<rparr>))
              (\<lambda>response.
        await (json response) return))
       (\<lambda>error.
        await (console_error ''Trigger processing failed:'' error) (\<lambda>_.
        return (JObj [(''status'', JStr ''error''), (''message'', JStr (message error))])))"

definition getEnvironment :: "transport \<Rightarrow> jsval list \<Rightarrow> jsval action" where
  "getEnvironment t args =
     try_catch
       (await (fetch t (API_BASE @ ''/api/environment'') None) (\<lambda>response.
        await (json response) return))
       (\<lambda>error.
        await (console_error ''Get environment failed:'' error) (\<lambda>_.
        return (JObj [(''error'', JStr (message error))])))"

text \<open>The five methods of the exported instance, which has no field.\<close>

datatype operation =
  GetHealth | GetTransactions | GetDatabaseStatus | TriggerProcessing | GetEnvironment

fun invoke :: "operation \<Rightarrow> transport \<Rightarrow> jsval list \<Rightarrow> jsval action" where
  "invoke GetHealth = getHealth"
| "invoke GetTransactions = getTransactions"
| "invoke GetDatabaseStatus = getDatabaseStatus"
| "invoke TriggerProcessing = triggerProcessing"
| "invoke GetEnvironment = getEnvironment"

text \<open>
  What each method has in hand when it comes to its one \<^verbatim>\<open>fetch\<close> call, read off
  the source: the request, or the fault thrown while the URL was put together;
  \<open>invoke_requests\<close> below shows that it is what the method hands to the network.
\<close>

fun issued_request :: "operation \<Rightarrow> jsval list \<Rightarrow> fault + request" where
  "issued_request GetHealth args = Inr (new_request (API_BASE @ ''/api/health'') None)"
| "issued_request GetTransactions args =
     (case ToString (default_to (parameter args 0) (JNum (Finite 100 0))) of
        Inl e \<Rightarrow> Inl e
      | Inr text \<Rightarrow>
          Inr (new_request (API_BASE @ ''/api/transactions-raw?limit='' @ text) None))"
| "issued_request GetDatabaseStatus args =
     Inr (new_request (API_BASE @ ''/api/database-test'') None)"
| "issued_request TriggerProcessing args =
     Inr (new_request (API_BASE @ ''/api/process'')
       (Some \<lparr>init_method = Some ''POST'',
              init_headers = Some [(''Content-Type'', ''application/json'')],
              init_body = None\<rparr>))"
| "issued_request GetEnvironment args = Inr (new_request (API_BASE @ ''/api/environment'') None)"

text \<open>The text that the \<^verbatim>\<open>catch\<close> block of each method writes in front of the error.\<close>

fun log_label :: "operation \<Rightarrow> string" where
  "log_label GetHealth = ''Health check failed:''"
| "log_label GetTransactions = ''Get transactions failed:''"
| "log_label GetDatabaseStatus = ''Database status failed:''"
| "log_label TriggerProcessing = ''Trigger processing failed:''"
| "log_label GetEnvironment = ''Get environment failed:''"

text \<open>The fault raised inside the \<^verbatim>\<open>try\<close> block, by the fetch or by the parse.\<close>

definition thrown :: "response outcome \<Rightarrow> fault option" where
  "thrown a =
     (case a of
        Rejected e \<Rightarrow> Some e
      | Fulfilled r \<Rightarrow> (case resp_json r of Rejected e \<Rightarrow> Some e | _ \<Rightarrow> None)
      | Pending \<Rightarrow> None)"


section \<open>The contract, in the words of the specification\<close>

text \<open>The fallback shapes of the operations table, for a failure described by \<open>d\<close>.\<close>

fun fallback :: "operation \<Rightarrow> string \<Rightarrow> jsval" where
  "fallback GetHealth d = JObj [(''status'', JStr ''error''), (''message'', JStr d)]"
| "fallback GetTransactions d = JObj [(''transactions'', JArr []), (''error'', JStr d)]"
| "fallback GetDatabaseStatus d = JObj [(''connection_test'', JBool False), (''error'', JStr d)]"
| "fallback TriggerProcessing d = JObj [(''status'', JStr ''error''), (''message'', JStr d)]"
| "fallback GetEnvironment d = JObj [(''error'', JStr d)]"

text \<open>
  A value has the fallback shape of an operation when it is that mapping for some
  description: the description can only be the text of its last field.
\<close>

fun last_text :: "jsval \<Rightarrow> string option" where
  "last_text (JObj fs) =
     (if fs = [] then None else case snd (last fs) of JStr d \<Rightarrow> Some d | _ \<Rightarrow> None)"
| "last_text v = None"

definition has_fallback_shape :: "operation \<Rightarrow> jsval \<Rightarrow> bool" where
  "has_fallback_shape op v = (case last_text v of None \<Rightarrow> False | Some d \<Rightarrow> v = fallback op d)"





section \<open>The startup script\<close>

text \<open>
  The host as the script meets it: the port variable of its environment, the directory
  it is started in, the directories and regular files that exist (absolute paths), the
  exit status of \<^verbatim>\<open>pip3 install\<close>, what pathname expansion makes of a pattern in a
  directory, and what the search for a command finds. The shell runs with its default
  options and its default field separators, which it does not take from the environment.
  The script checks no exit status; the \<^verbatim>\<open>echo\<close> lines and the export of
  \<^verbatim>\<open>PYTHONPATH\<close> do not bear on how it ends.
\<close>

datatype lookup = Runnable | NotFound | NotExecutable

record host =
  WEBSITES_PORT :: "string option"
  start_directory :: string
  directories :: "string set"
  regular_files :: "string set"
  pip3_install :: nat
  pathnames :: "string \<Rightarrow> string \<Rightarrow> string list"
  command :: "string \<Rightarrow> lookup"

text \<open>
  How the script ends: with an exit status, or replaced by the program of a command
  line. The script is followed up to that last step; the external commands before it
  are taken to return.
\<close>

datatype ending = Exit nat | Exec "string list"

text \<open>\<^verbatim>\<open>${VAR:-word}\<close>: the word stands in for an unset or empty variable.\<close>

definition default_value :: "string option \<Rightarrow> string \<Rightarrow> string" where
  "default_value v d = (case v of None \<Rightarrow> d | Some s \<Rightarrow> if s = [] then d else s)"

text \<open>\<^verbatim>\<open>cd dir\<close> fails on a missing directory and leaves the shell where it was.\<close>

definition cd :: "host \<Rightarrow> string \<Rightarrow> string \<Rightarrow> string" where
  "cd h cwd dir = (if dir \<in> directories h then dir else cwd)"

text \<open>The path of a name in a directory; the root directory ends in the separator.\<close>

definition in_directory :: "string \<Rightarrow> string \<Rightarrow> string" where
  "in_directory dir nm =
     (if dir \<noteq> [] \<and> last dir = CHR ''/'' then dir @ nm else dir @ ''/'' @ nm)"

text \<open>\<^verbatim>\<open>[ -f name ]\<close> with a relative name looks in the working directory.\<close>

definition is_file :: "host \<Rightarrow> string \<Rightarrow> string \<Rightarrow> bool" where
  "is_file h cwd nm \<longleftrightarrow> in_directory cwd nm \<in> regular_files h"

definition ifs :: "char \<Rightarrow> bool" where
  "ifs c \<longleftrightarrow> c = CHR '' '' \<or> c = CHR 0x09 \<or> c = CHR 0x0A"

text \<open>
  Field splitting of a word whose tail is an unquoted expansion: \<open>cur\<close> is the field
  read so far and starts as the literal head of the word.
\<close>

fun split_fields :: "string \<Rightarrow> string \<Rightarrow> string list" where
  "split_fields cur [] = (if cur = [] then [] else [cur])"
| "split_fields cur (c # cs) =
     (if ifs c then (if cur = [] then split_fields [] cs else cur # split_fields [] cs)
      else split_fields (cur @ [c]) cs)"

text \<open>
  Pathname expansion follows field splitting. A field without \<^verbatim>\<open>*\<close>, \<^verbatim>\<open>?\<close>,
  \<^verbatim>\<open>[\<close> or a backslash stays as it is; what becomes of any other field depends on
  the file names of the working directory, and the host says it.
\<close>

definition pattern_char :: "char \<Rightarrow> bool" where
  "pattern_char c \<longleftrightarrow> c = CHR ''*'' \<or> c = CHR ''?'' \<or> c = CHR ''['' \<or> c = CHR 0x5C"

definition pathname_expansion :: "host \<Rightarrow> string \<Rightarrow> string \<Rightarrow> string list" where
  "pathname_expansion h cwd field =
     (if list_ex pattern_char field then pathnames h cwd field else [field])"

text \<open>
  \<^verbatim>\<open>exec\<close> puts the program in the place of the shell. When the program cannot be
  run, a shell that is not interactive exits, with status 127 if the command was not
  found and 126 if it was found and cannot be executed.
\<close>

definition exec :: "host \<Rightarrow> string \<Rightarrow> string list \<Rightarrow> ending" where
  "exec h cmd args =
     (case command h cmd of
        Runnable \<Rightarrow> Exec (cmd # args)
      | NotFound \<Rightarrow> Exit 127
      | NotExecutable \<Rightarrow> Exit 126)"

definition startup :: "host \<Rightarrow> ending" where
  "startup h =
     (let port = default_value (WEBSITES_PORT h) ''8000'';
          cwd = cd h (start_directory h) ''/home/site/wwwroot''
      in if \<not> is_file h cwd ''app.py'' then Exit 1
         else if \<not> is_file h cwd ''requirements.txt'' then Exit 1
         else let status = pip3_install h
              in exec h ''gunicorn''
                   (concat (map (pathname_expansion h cwd)
                              (split_fields ''--bind=0.0.0.0:'' port)) @
                    [''--timeout'', ''600'', ''--workers'', ''1'',
                     ''--worker-class'', ''sync'', ''--preload'',
                     ''--access-logfile'', ''-'', ''--error-logfile'', ''-'',
                     ''--log-level'', ''info'', ''app:app'']))"

text \<open>A port value that field splitting and pathname expansion leave as one word.\<close>

definition plain :: "string \<Rightarrow> bool" where
  "plain p \<longleftrightarrow> \<not> list_ex ifs p \<and> \<not> list_ex pattern_char p"

section \<open>Sample inputs\<close>

definition no_history :: world where
  "no_history = \<lparr>requests = [], console = []\<rparr>"

definition always :: "response outcome \<Rightarrow> transport" where
  "always a = (\<lambda>history rq. a)"

definition network_error :: fault where
  "network_error = \<lparr>name = ''TypeError'', message = ''Failed to fetch''\<rparr>"


definition health_ok :: response where
  "health_ok = \<lparr>resp_status = 200, resp_json = Fulfilled (JObj [(''status'', JStr ''ok'')])\<rparr>"

definition server_error :: response where
  "server_error =
     \<lparr>resp_status = 500,
      resp_json = Fulfilled (JObj [(''error'', JStr ''database unavailable'')])\<rparr>"




text \<open>The object \<^verbatim>\<open>{toString: 1}\<close>.\<close>

definition own_toString :: jsval where
  "own_toString = JObj [(''toString'', JNum (Finite 1 0))]"

text \<open>A remote side that fails the first request it ever sees and answers every later one.\<close>

definition flaky :: transport where
  "flaky history rq = (if history = [] then Rejected network_error else Fulfilled health_ok)"

text \<open>The world after one earlier call that failed.\<close>

definition later :: world where
  "later = snd (triggerProcessing (always (Rejected network_error)) [] no_history)"

text \<open>
  A deployed host; a checkout of the repository on a machine without the application
  directory; the deployed host without gunicorn; the deployed host with a port value
  that holds a blank.
\<close>

definition azure_host :: host where
  "azure_host =
     \<lparr>WEBSITES_PORT = None,
      start_directory = ''/'',
      directories = {''/home/site/wwwroot''},
      regular_files = {''/home/site/wwwroot/app.py'', ''/home/site/wwwroot/requirements.txt''},
      pip3_install = 0,
      pathnames = (\<lambda>dir pattern. [pattern]),
      command = (\<lambda>cmd. Runnable)\<rparr>"

definition stray_host :: host where
  "stray_host =
     \<lparr>WEBSITES_PORT = Some ''5000'',
      start_directory = ''/tmp/checkout'',
      directories = {''/tmp/checkout''},
      regular_files = {''/tmp/checkout/app.py'', ''/tmp/checkout/requirements.txt''},
      pip3_install = 0,
      pathnames = (\<lambda>dir pattern. [pattern]),
      command = (\<lambda>cmd. Runnable)\<rparr>"

definition bare_host :: host where
  "bare_host = azure_host\<lparr>command := (\<lambda>cmd. NotFound)\<rparr>"

definition blank_port_host :: host where
  "blank_port_host = azure_host\<lparr>WEBSITES_PORT := Some ''80 81''\<rparr>"

section \<open>What one invocation does\<close>

lemmas run_defs = getHealth_def getTransactions_def getDatabaseStatus_def triggerProcessing_def
  getEnvironment_def try_catch_def await_def evaluate_def fetch_def json_def console_error_def
  return_def

text \<open>
  Every method hands at most one request to the network: the one read off its source,
  and none if the URL could not be put together.
\<close>

lemma invoke_requests:
  "requests (snd (invoke op t args w)) =
     requests w @ (case issued_request op args of Inl e \<Rightarrow> [] | Inr rq \<Rightarrow> [rq])"
  by (cases op) (auto simp: run_defs Let_def split: outcome.splits sum.splits)

text \<open>The result of a method, by cases on how the transport answers that request.\<close>

lemma invoke_result:
  "fst (invoke op t args w) =
     (case issued_request op args of
        Inl e \<Rightarrow> Fulfilled (fallback op (message e))
      | Inr rq \<Rightarrow>
          (case t (requests w) rq of
             Rejected e \<Rightarrow> Fulfilled (fallback op (message e))
           | Pending \<Rightarrow> Pending
           | Fulfilled r \<Rightarrow>
               (case resp_json r of
                  Fulfilled B \<Rightarrow> Fulfilled B
                | Rejected e \<Rightarrow> Fulfilled (fallback op (message e))
                | Pending \<Rightarrow> Pending)))"
  by (cases op) (auto simp: run_defs Let_def split: outcome.splits sum.splits)

text \<open>Its only other effect is one line on the console, when a fault was caught.\<close>

lemma invoke_console:
  "console (snd (invoke op t args w)) =
     console w @
       (case issued_request op args of
          Inl e \<Rightarrow> [(log_label op, e)]
        | Inr rq \<Rightarrow>
            (case thrown (t (requests w) rq) of
               None \<Rightarrow> []
             | Some e \<Rightarrow> [(log_label op, e)]))"
  by (cases op) (auto simp: run_defs thrown_def Let_def split: outcome.splits sum.splits)

text \<open>Only the transaction list can fail before its request, and only in the conversion.\<close>

lemma issued_request_Inl:
  "issued_request op args = Inl e \<longleftrightarrow>
     op = GetTransactions \<and> ToString (default_to (parameter args 0) (JNum (Finite 100 0))) = Inl e"
  by (cases op) (auto split: sum.splits)



text \<open>The printing of numbers, on values whose JavaScript form is known.\<close>

lemma Number_toString_examples:
  "Number_toString (Finite 100 0) = ''100'' \<and>
   Number_toString (Finite (- 5) 0) = ''-5'' \<and>
   Number_toString (Finite 25 (- 1)) = ''2.5'' \<and>
   Number_toString (Finite 314 (- 2)) = ''3.14'' \<and>
   Number_toString (Finite 1 (- 6)) = ''0.000001'' \<and>
   Number_toString (Finite 1 (- 7)) = ''1e-7'' \<and>
   Number_toString (Finite 1 21) = ''1e+21'' \<and>
   Number_toString (Finite 12 20) = ''1.2e+21'' \<and>
   Number_toString (Finite 0 3) = ''0''"
  by code_simp

text \<open>The string conversion, where it yields a text and where it throws.\<close>

lemma ToString_examples:
  "ToString (JArr [JNum (Finite 1 0), JNull, JStr ''a'']) = Inr ''1,,a'' \<and>
   ToString (JObj [(''valueOf'', JNum (Finite 1 0))]) = Inr ''[object Object]'' \<and>
   ToString own_toString = Inl object_to_primitive_error \<and>
   ToString (JSymbol ''id'') = Inl symbol_to_string_error \<and>
   ToString (JArr [JStr ''a'', JSymbol ''id'', own_toString]) = Inl symbol_to_string_error"
  by code_simp

lemma hundred: "positive_toString 100 0 = ''100''"
  by code_simp

lemma ten: "positive_toString 10 0 = ''10''"
  by code_simp


section \<open>Failure and success of the remote call\<close>

text \<open>
  C1. Whenever the transport call throws a fault \<open>e\<close>, be it the fetch that rejects or
  the body that does not parse, each of the five operations returns exactly its
  fallback mapping, with the message of \<open>e\<close> as the description and no other field.
\<close>

theorem fault_yields_fallback:
  "issued_request op args = Inr rq \<Longrightarrow> thrown (t (requests w) rq) = Some e \<Longrightarrow>
   fst (invoke op t args w) = Fulfilled (fallback op (message e))"
  by (auto simp: invoke_result thrown_def split: outcome.splits)

text \<open>C1, on the scenario of a network error while listing transactions.\<close>

theorem fault_yields_fallback_witness:
  "issued_request GetTransactions [] =
     Inr (new_request (API_BASE @ ''/api/transactions-raw?limit=100'') None) \<and>
   thrown (always (Rejected network_error) (requests no_history)
             (new_request (API_BASE @ ''/api/transactions-raw?limit=100'') None)) =
     Some network_error \<and>
   fst (invoke GetTransactions (always (Rejected network_error)) [] no_history) =
     Fulfilled (JObj [(''transactions'', JArr []), (''error'', JStr ''Failed to fetch'')])"
  using fault_yields_fallback [where t = "always (Rejected network_error)" and w = no_history
      and op = GetTransactions and args = "[]" and e = network_error
      and rq = "new_request (API_BASE @ ''/api/transactions-raw?limit=100'') None"]
  by (simp add: thrown_def always_def network_error_def parameter_def default_to_def hundred)

text \<open>
  C2. If the transport call succeeds and the body of its response parses as the JSON
  value \<open>B\<close>, each of the five operations returns \<open>B\<close> itself.
\<close>

theorem success_passes_body_through:
  "issued_request op args = Inr rq \<Longrightarrow> t (requests w) rq = Fulfilled r \<Longrightarrow>
   resp_json r = Fulfilled B \<Longrightarrow>
   fst (invoke op t args w) = Fulfilled B"
  by (simp add: invoke_result)

text \<open>C2, on the scenario of a health check that answers \<^verbatim>\<open>{status: "ok"}\<close>.\<close>

theorem success_passes_body_through_witness:
  "issued_request GetHealth [] = Inr (new_request (API_BASE @ ''/api/health'') None) \<and>
   always (Fulfilled health_ok) (requests no_history)
     (new_request (API_BASE @ ''/api/health'') None) = Fulfilled health_ok \<and>
   resp_json health_ok = Fulfilled (JObj [(''status'', JStr ''ok'')]) \<and>
   fst (invoke GetHealth (always (Fulfilled health_ok)) [] no_history) =
     Fulfilled (JObj [(''status'', JStr ''ok'')])"
  using success_passes_body_through [where t = "always (Fulfilled health_ok)"
      and w = no_history and op = GetHealth and args = "[]" and r = health_ok
      and B = "JObj [(''status'', JStr ''ok'')]"
      and rq = "new_request (API_BASE @ ''/api/health'') None"]
  by (simp add: always_def health_ok_def)

text \<open>
  C3, as stated, fails: a response with status 500 whose body is JSON is handed to the
  caller as it is, and that body is not the fallback shape of the health check. No
  method reads the status of a response.
\<close>

theorem non_success_status_counterexample:
  "\<not> ok server_error \<and>
   fst (invoke GetHealth (always (Fulfilled server_error)) [] no_history) =
     Fulfilled (JObj [(''error'', JStr ''database unavailable'')]) \<and>
   \<not> has_fallback_shape GetHealth (JObj [(''error'', JStr ''database unavailable'')])"
  by (simp add: ok_def server_error_def invoke_result always_def has_fallback_shape_def
      del: invoke.simps)

text \<open>
  C3, amended. A response that carries a non-success status is not a failure of its
  own: if its body parses as \<open>B\<close> the operation returns \<open>B\<close>, and the operation
  returns its fallback shape only if the body does not parse.
\<close>

theorem non_success_status_not_inspected:
  "issued_request op args = Inr rq \<Longrightarrow> t (requests w) rq = Fulfilled r \<Longrightarrow> \<not> ok r \<Longrightarrow>
   fst (invoke op t args w) =
     (case resp_json r of
        Fulfilled B \<Rightarrow> Fulfilled B
      | Rejected e \<Rightarrow> Fulfilled (fallback op (message e))
      | Pending \<Rightarrow> Pending)"
  by (simp add: invoke_result)

text \<open>C3, amended, on a status 500 answer to the processing trigger.\<close>

theorem non_success_status_not_inspected_witness:
  "issued_request TriggerProcessing [] =
     Inr \<lparr>req_url = API_BASE @ ''/api/process'', req_method = ''POST'',
          req_headers = [(''Content-Type'', ''application/json'')], req_body = None\<rparr> \<and>
   always (Fulfilled server_error) (requests no_history)
     \<lparr>req_url = API_BASE @ ''/api/process'', req_method = ''POST'',
      req_headers = [(''Content-Type'', ''application/json'')], req_body = None\<rparr> =
     Fulfilled server_error \<and>
   \<not> ok server_error \<and>
   fst (invoke TriggerProcessing (always (Fulfilled server_error)) [] no_history) =
     Fulfilled (JObj [(''error'', JStr ''database unavailable'')])"
  using non_success_status_not_inspected [where t = "always (Fulfilled server_error)"
      and w = no_history and op = TriggerProcessing and args = "[]" and r = server_error
      and rq = "\<lparr>req_url = API_BASE @ ''/api/process'', req_method = ''POST'',
          req_headers = [(''Content-Type'', ''application/json'')], req_body = None\<rparr>"]
  by (simp add: always_def server_error_def ok_def new_request_def)




section \<open>The requests\<close>

text \<open>
  C5. Called with no argument, \<^verbatim>\<open>getTransactions\<close> asks for \<^verbatim>\<open>limit=100\<close>; called
  with a number \<open>N\<close>, it asks for \<^verbatim>\<open>limit=\<close> followed by \<open>N\<close> as JavaScript prints it.
\<close>

theorem getTransactions_limit:
  "requests (snd (getTransactions t [] w)) =
     requests w @
       [\<lparr>req_url = API_BASE @ ''/api/transactions-raw?limit=100'', req_method = ''GET'',
         req_headers = [], req_body = None\<rparr>] \<and>
   requests (snd (getTransactions t [JNum N] w)) =
     requests w @
       [\<lparr>req_url = API_BASE @ ''/api/transactions-raw?limit='' @ Number_toString N,
         req_method = ''GET'', req_headers = [], req_body = None\<rparr>]"
proof -
  have "issued_request GetTransactions [] =
      Inr \<lparr>req_url = API_BASE @ ''/api/transactions-raw?limit=100'', req_method = ''GET'',
       req_headers = [], req_body = None\<rparr>"
    by (simp add: new_request_def parameter_def default_to_def hundred)
  moreover have "issued_request GetTransactions [JNum N] =
      Inr \<lparr>req_url = API_BASE @ ''/api/transactions-raw?limit='' @ Number_toString N,
       req_method = ''GET'', req_headers = [], req_body = None\<rparr>"
    by (simp add: new_request_def parameter_def default_to_def)
  ultimately show ?thesis
    using invoke_requests [of GetTransactions t "[]" w]
      invoke_requests [of GetTransactions t "[JNum N]" w]
    by simp
qed

text \<open>The dashboard's own call, \<^verbatim>\<open>getTransactions(10)\<close>.\<close>

lemma dashboard_request:
  "requests (snd (getTransactions t [JNum (Finite 10 0)] w)) =
     requests w @
       [\<lparr>req_url = API_BASE @ ''/api/transactions-raw?limit=10'', req_method = ''GET'',
         req_headers = [], req_body = None\<rparr>]"
  using invoke_requests [of GetTransactions t "[JNum (Finite 10 0)]" w]
  by (simp add: new_request_def parameter_def default_to_def ten)

text \<open>
  C6. Whatever it is called with, \<^verbatim>\<open>triggerProcessing\<close> issues its request with
  method POST, the header \<^verbatim>\<open>Content-Type: application/json\<close> and no body.
\<close>

theorem triggerProcessing_request:
  "requests (snd (triggerProcessing t args w)) =
     requests w @
       [\<lparr>req_url = API_BASE @ ''/api/process'', req_method = ''POST'',
         req_headers = [(''Content-Type'', ''application/json'')], req_body = None\<rparr>]"
  using invoke_requests [of TriggerProcessing t args w]
  by (simp add: new_request_def)




text \<open>
  C8. The result of an invocation is a function of the operation, its arguments and the
  transport's answer to its request: two invocations that get the same answer return
  equal results, whatever the requests and console lines that came before either.
\<close>

theorem result_depends_on_answer_only:
  "(\<forall>rq. issued_request op args = Inr rq \<longrightarrow>
      t1 (requests w1) rq = t2 (requests w2) rq) \<Longrightarrow>
   fst (invoke op t1 args w1) = fst (invoke op t2 args w2)"
  by (simp add: invoke_result split: sum.splits)

text \<open>
  C8, on a first health check and on one made after an earlier call had failed, against
  a remote side whose answers depend on what it has seen.
\<close>

theorem result_depends_on_answer_only_witness:
  "issued_request GetHealth [] = Inr (new_request (API_BASE @ ''/api/health'') None) \<and>
   always (Fulfilled health_ok) (requests no_history)
       (new_request (API_BASE @ ''/api/health'') None) =
     flaky (requests later) (new_request (API_BASE @ ''/api/health'') None) \<and>
   fst (invoke GetHealth (always (Fulfilled health_ok)) [] no_history) =
     fst (invoke GetHealth flaky [] later)"
proof -
  have "requests later \<noteq> []"
    using invoke_requests [of TriggerProcessing "always (Rejected network_error)" "[]" no_history]
    by (simp add: later_def)
  then have same: "always (Fulfilled health_ok) (requests no_history) rq =
      flaky (requests later) rq" for rq
    by (simp add: always_def flaky_def)
  with result_depends_on_answer_only [where ?t1.0 = "always (Fulfilled health_ok)"
      and ?w1.0 = no_history and ?t2.0 = flaky and ?w2.0 = later and op = GetHealth
      and args = "[]"]
  show ?thesis by simp
qed




section \<open>How the startup script ends\<close>

text \<open>A port value without blanks and pattern characters goes in as one word.\<close>

lemma split_fields_plain:
  "\<not> list_ex ifs p \<Longrightarrow> cur @ p \<noteq> [] \<Longrightarrow> split_fields cur p = [cur @ p]"
  by (induction p arbitrary: cur) auto

lemma bind_word_plain:
  assumes "plain p"
  shows "concat (map (pathname_expansion h cwd) (split_fields ''--bind=0.0.0.0:'' p)) =
     [''--bind=0.0.0.0:'' @ p]"
proof -
  have "split_fields ''--bind=0.0.0.0:'' p = [''--bind=0.0.0.0:'' @ p]"
    using assms by (intro split_fields_plain) (simp_all add: plain_def)
  moreover have "\<not> list_ex pattern_char (''--bind=0.0.0.0:'' @ p)"
    using assms by (simp add: plain_def pattern_char_def)
  ultimately show ?thesis
    by (simp add: pathname_expansion_def)
qed

text \<open>
  C10, as stated, fails in three ways. Where \<^verbatim>\<open>/home/site/wwwroot\<close> does not exist
  the \<^verbatim>\<open>cd\<close> fails, the script goes on in the directory it was started in, and with
  both files there (a checkout of the repository) it starts the server, although
  neither file is in the application directory. Where both files are present and
  gunicorn is not installed, the \<^verbatim>\<open>exec\<close> fails and the script ends with status
  127 and no server. Where the port variable holds \<^verbatim>\<open>80 81\<close>, the unquoted
  expansion splits: the server is bound to 80 and is handed a stray word.
\<close>

theorem startup_counterexample:
  "''/home/site/wwwroot/app.py'' \<notin> regular_files stray_host \<and>
   ''/home/site/wwwroot/requirements.txt'' \<notin> regular_files stray_host \<and>
   startup stray_host =
     Exec [''gunicorn'', ''--bind=0.0.0.0:5000'', ''--timeout'', ''600'', ''--workers'', ''1'',
           ''--worker-class'', ''sync'', ''--preload'', ''--access-logfile'', ''-'',
           ''--error-logfile'', ''-'', ''--log-level'', ''info'', ''app:app''] \<and>
   ''/home/site/wwwroot/app.py'' \<in> regular_files bare_host \<and>
   ''/home/site/wwwroot/requirements.txt'' \<in> regular_files bare_host \<and>
   startup bare_host = Exit 127 \<and>
   WEBSITES_PORT blank_port_host = Some ''80 81'' \<and>
   startup blank_port_host =
     Exec [''gunicorn'', ''--bind=0.0.0.0:80'', ''81'', ''--timeout'', ''600'', ''--workers'',
           ''1'', ''--worker-class'', ''sync'', ''--preload'', ''--access-logfile'', ''-'',
           ''--error-logfile'', ''-'', ''--log-level'', ''info'', ''app:app'']"
  by (simp add: stray_host_def bare_host_def blank_port_host_def azure_host_def startup_def
      cd_def is_file_def in_directory_def default_value_def exec_def pathname_expansion_def
      pattern_char_def ifs_def)

text \<open>
  C10, amended. Where the application directory exists, the script ends with exit
  status 1 when \<^verbatim>\<open>app.py\<close> or \<^verbatim>\<open>requirements.txt\<close> is not a regular file in it.
  Otherwise it calls \<^verbatim>\<open>exec\<close> on gunicorn bound to \<^verbatim>\<open>0.0.0.0\<close> and the port of
  \<^verbatim>\<open>WEBSITES_PORT\<close>, 8000 when that is unset or empty, for a port value without blanks
  and pattern characters and whatever the exit status of \<^verbatim>\<open>pip3 install\<close>: the server
  takes the place of the script when gunicorn can be run, and the script ends with
  status 127 or 126 when it cannot.
\<close>

theorem startup_in_app_dir:
  "''/home/site/wwwroot'' \<in> directories h \<Longrightarrow>
   port = (case WEBSITES_PORT h of
             None \<Rightarrow> ''8000''
           | Some v \<Rightarrow> if v = [] then ''8000'' else v) \<Longrightarrow>
   plain port \<Longrightarrow>
   startup h =
     (if ''/home/site/wwwroot/app.py'' \<in> regular_files h \<and>
         ''/home/site/wwwroot/requirements.txt'' \<in> regular_files h
      then (case command h ''gunicorn'' of
              Runnable \<Rightarrow>
                Exec [''gunicorn'', ''--bind=0.0.0.0:'' @ port, ''--timeout'', ''600'',
                      ''--workers'', ''1'', ''--worker-class'', ''sync'', ''--preload'',
                      ''--access-logfile'', ''-'', ''--error-logfile'', ''-'',
                      ''--log-level'', ''info'', ''app:app'']
            | NotFound \<Rightarrow> Exit 127
            | NotExecutable \<Rightarrow> Exit 126)
      else Exit 1)"
proof -
  assume dir: "''/home/site/wwwroot'' \<in> directories h"
    and port_eq: "port = (case WEBSITES_PORT h of
             None \<Rightarrow> ''8000''
           | Some v \<Rightarrow> if v = [] then ''8000'' else v)"
    and is_plain: "plain port"
  have set_port: "default_value (WEBSITES_PORT h) ''8000'' = port"
    by (simp add: port_eq default_value_def split: option.splits)
  have word: "concat (map (pathname_expansion h ''/home/site/wwwroot'')
      (split_fields ''--bind=0.0.0.0:'' port)) = [''--bind=0.0.0.0:'' @ port]"
    using is_plain by (rule bind_word_plain)
  show ?thesis
    using dir
    by (simp add: startup_def Let_def cd_def is_file_def in_directory_def exec_def set_port
        word split: lookup.splits)
qed

text \<open>
  C10, amended: on a deployed host with no port set; with the port 5000; without
  \<^verbatim>\<open>requirements.txt\<close>; and with a gunicorn that cannot be executed.
\<close>

theorem startup_in_app_dir_witness:
  "''/home/site/wwwroot'' \<in> directories azure_host \<and>
   WEBSITES_PORT azure_host = None \<and>
   plain ''8000'' \<and>
   startup azure_host =
     Exec [''gunicorn'', ''--bind=0.0.0.0:8000'', ''--timeout'', ''600'', ''--workers'', ''1'',
           ''--worker-class'', ''sync'', ''--preload'', ''--access-logfile'', ''-'',
           ''--error-logfile'', ''-'', ''--log-level'', ''info'', ''app:app''] \<and>
   plain ''5000'' \<and>
   startup (azure_host\<lparr>WEBSITES_PORT := Some ''5000''\<rparr>) =
     Exec [''gunicorn'', ''--bind=0.0.0.0:5000'', ''--timeout'', ''600'', ''--workers'', ''1'',
           ''--worker-class'', ''sync'', ''--preload'', ''--access-logfile'', ''-'',
           ''--error-logfile'', ''-'', ''--log-level'', ''info'', ''app:app''] \<and>
   startup (azure_host\<lparr>regular_files := {''/home/site/wwwroot/app.py''}\<rparr>) = Exit 1 \<and>
   startup (azure_host\<lparr>command := (\<lambda>cmd. NotExecutable)\<rparr>) = Exit 126"
  using startup_in_app_dir [of azure_host "''8000''"]
    startup_in_app_dir [of "azure_host\<lparr>WEBSITES_PORT := Some ''5000''\<rparr>" "''5000''"]
    startup_in_app_dir [of "azure_host\<lparr>regular_files := {''/home/site/wwwroot/app.py''}\<rparr>"
      "''8000''"]
    startup_in_app_dir [of "azure_host\<lparr>command := (\<lambda>cmd. NotExecutable)\<rparr>" "''8000''"]
  by (simp add: azure_host_def plain_def ifs_def pattern_char_def)

end
